theory Spec2Isabelle
  imports Complex_Main "HOL-Library.Word"
begin

section \<open>IDataType: the type-descriptor and serialization contract\<close>

text \<open>
  A shallow embedding of \<^verbatim>\<open>dbms/include/DB/DataTypes/IDataType.h\<close>.

  \<^item> \<^verbatim>\<open>WriteBuffer\<close> is the sequence of bytes written so far, \<^verbatim>\<open>ReadBuffer\<close> the
    sequence of bytes not yet consumed; a \<^verbatim>\<open>WriteBuffer *\<close> or \<^verbatim>\<open>ReadBuffer *\<close> is the
    list of the buffers it points to.
  \<^item> \<^verbatim>\<open>IColumn\<close> and \<^verbatim>\<open>Field\<close> are declared outside the header: they are the type
    parameters \<open>'col\<close> and \<open>'field\<close>.
  \<^item> \<^verbatim>\<open>size_t\<close> arguments are \<open>nat\<close>: the header does no arithmetic on them.
    \<^verbatim>\<open>double avg_value_size_hint\<close> is \<open>real\<close>: the header only passes it on.
  \<^item> A method that takes a buffer by reference and may throw returns the exception, if
    any, together with the state the call leaves behind.
  \<^item> \<^verbatim>\<open>clone\<close> and the destructor are left out: a descriptor is an immutable value here.
\<close>

type_synonym WriteBuffer = string
type_synonym ReadBuffer = string

text \<open>
  Modelled from the spec: the error-code classification (\<^verbatim>\<open>ErrorCodes\<close> is declared
  outside the header, which names only \<^verbatim>\<open>ErrorCodes::NOT_IMPLEMENTED\<close>). The other
  kinds are those of the spec's error taxonomy.
\<close>

datatype ErrorCodes = NOT_IMPLEMENTED | MALFORMED_INPUT | TRUNCATED_STREAM | TYPE_MISMATCH

datatype Exception = Exception (message: string) (code: ErrorCodes)

text \<open>
  The virtual table of one descriptor. A pure virtual method is a slot \<open>*_impl\<close> that
  every concrete descriptor fills; a virtual method with a body in \<^verbatim>\<open>IDataType\<close> is a
  slot \<open>*_override\<close>, \<open>None\<close> when the descriptor inherits that body. A descriptor is
  immutable, so a slot is a function of the call's arguments only.

  A \<^verbatim>\<open>const IColumn &\<close> argument is read only: such a slot returns no column.
  An \<^verbatim>\<open>IColumn &\<close> argument may be changed: such a slot returns the column it leaves.
  A \<^verbatim>\<open>streams[0]\<close> on an array of no buffers has no defined behaviour: the
  multiple-stream methods return \<open>None\<close> there.
\<close>

record ('col, 'field) IDataType =
  getName_impl :: string
  isNull_override :: "bool option"
  isNullable_override :: "bool option"
  isNumeric_override :: "bool option"
  isNumericNotNullable_override :: "bool option"
  behavesAsNumber_override :: "bool option"
  serializeBinaryBulk_impl ::
    "'col \<Rightarrow> WriteBuffer \<Rightarrow> nat \<Rightarrow> nat \<Rightarrow> Exception option \<times> WriteBuffer"
  deserializeBinaryBulk_impl ::
    "'col \<Rightarrow> ReadBuffer \<Rightarrow> nat \<Rightarrow> real \<Rightarrow> Exception option \<times> 'col \<times> ReadBuffer"
  describeMultipleStreams_override :: "(string list \<Rightarrow> nat \<Rightarrow> string list) option"
  serializeBinaryBulkWithMupltipleStreams_override ::
    "('col \<Rightarrow> WriteBuffer list \<Rightarrow> nat \<Rightarrow> bool \<Rightarrow> nat \<Rightarrow> nat
       \<Rightarrow> (Exception option \<times> 'col \<times> WriteBuffer list) option) option"
  deserializeBinaryBulkWithMultipleStreams_override ::
    "('col \<Rightarrow> ReadBuffer list \<Rightarrow> nat \<Rightarrow> bool \<Rightarrow> nat \<Rightarrow> real
       \<Rightarrow> (Exception option \<times> 'col \<times> ReadBuffer list) option) option"
  serializeBinaryField_impl :: "'field \<Rightarrow> WriteBuffer \<Rightarrow> Exception option \<times> WriteBuffer"
  deserializeBinaryField_impl ::
    "'field \<Rightarrow> ReadBuffer \<Rightarrow> Exception option \<times> 'field \<times> ReadBuffer"
  serializeBinary_impl :: "'col \<Rightarrow> nat \<Rightarrow> WriteBuffer \<Rightarrow> Exception option \<times> WriteBuffer"
  deserializeBinary_impl :: "'col \<Rightarrow> ReadBuffer \<Rightarrow> Exception option \<times> 'col \<times> ReadBuffer"
  serializeTextEscaped_impl ::
    "'col \<Rightarrow> nat \<Rightarrow> WriteBuffer \<Rightarrow> Exception option \<times> WriteBuffer"
  deserializeTextEscaped_impl ::
    "'col \<Rightarrow> ReadBuffer \<Rightarrow> Exception option \<times> 'col \<times> ReadBuffer"
  serializeTextQuoted_impl ::
    "'col \<Rightarrow> nat \<Rightarrow> WriteBuffer \<Rightarrow> Exception option \<times> WriteBuffer"
  deserializeTextQuoted_impl ::
    "'col \<Rightarrow> ReadBuffer \<Rightarrow> Exception option \<times> 'col \<times> ReadBuffer"
  serializeTextCSV_impl :: "'col \<Rightarrow> nat \<Rightarrow> WriteBuffer \<Rightarrow> Exception option \<times> WriteBuffer"
  deserializeTextCSV_impl ::
    "'col \<Rightarrow> ReadBuffer \<Rightarrow> char \<Rightarrow> Exception option \<times> 'col \<times> ReadBuffer"
  serializeText_impl :: "'col \<Rightarrow> nat \<Rightarrow> WriteBuffer \<Rightarrow> Exception option \<times> WriteBuffer"
  serializeTextJSON_impl ::
    "'col \<Rightarrow> nat \<Rightarrow> WriteBuffer \<Rightarrow> bool \<Rightarrow> Exception option \<times> WriteBuffer"
  deserializeTextJSON_impl ::
    "'col \<Rightarrow> ReadBuffer \<Rightarrow> Exception option \<times> 'col \<times> ReadBuffer"
  serializeTextXML_override ::
    "('col \<Rightarrow> nat \<Rightarrow> WriteBuffer \<Rightarrow> Exception option \<times> WriteBuffer) option"
  createColumn_impl :: 'col
  createConstColumn_impl :: "nat \<Rightarrow> 'field \<Rightarrow> 'col"
  getDefault_impl :: 'field
  getSizeOfField_override :: "(Exception + nat) option"

subsection \<open>Type classification and identity\<close>

definition getName :: "('col, 'field) IDataType \<Rightarrow> string" where
  "getName this = getName_impl this"

definition IDataType_isNull :: "('col, 'field) IDataType \<Rightarrow> bool" where
  "IDataType_isNull this = False"

definition isNull :: "('col, 'field) IDataType \<Rightarrow> bool" where
  "isNull this =
     (case isNull_override this of None \<Rightarrow> IDataType_isNull this | Some b \<Rightarrow> b)"

definition IDataType_isNullable :: "('col, 'field) IDataType \<Rightarrow> bool" where
  "IDataType_isNullable this = False"

definition isNullable :: "('col, 'field) IDataType \<Rightarrow> bool" where
  "isNullable this =
     (case isNullable_override this of None \<Rightarrow> IDataType_isNullable this | Some b \<Rightarrow> b)"

definition IDataType_isNumeric :: "('col, 'field) IDataType \<Rightarrow> bool" where
  "IDataType_isNumeric this = False"

definition isNumeric :: "('col, 'field) IDataType \<Rightarrow> bool" where
  "isNumeric this =
     (case isNumeric_override this of None \<Rightarrow> IDataType_isNumeric this | Some b \<Rightarrow> b)"

definition IDataType_isNumericNotNullable :: "('col, 'field) IDataType \<Rightarrow> bool" where
  "IDataType_isNumericNotNullable this = isNumeric this"

definition isNumericNotNullable :: "('col, 'field) IDataType \<Rightarrow> bool" where
  "isNumericNotNullable this =
     (case isNumericNotNullable_override this of
        None \<Rightarrow> IDataType_isNumericNotNullable this
      | Some b \<Rightarrow> b)"

definition IDataType_behavesAsNumber :: "('col, 'field) IDataType \<Rightarrow> bool" where
  "IDataType_behavesAsNumber this = False"

definition behavesAsNumber :: "('col, 'field) IDataType \<Rightarrow> bool" where
  "behavesAsNumber this =
     (case behavesAsNumber_override this of
        None \<Rightarrow> IDataType_behavesAsNumber this
      | Some b \<Rightarrow> b)"

subsection \<open>Bulk binary serialization\<close>

text \<open>
  The calls as their caller sees them: the exception, if any, the column after the call
  and the buffer after the call. \<^verbatim>\<open>serializeBinaryBulk\<close> takes the column as
  \<^verbatim>\<open>const IColumn &\<close>, so the column after the call is the column before it.
\<close>

definition serializeBinaryBulk ::
  "('col, 'field) IDataType \<Rightarrow> 'col \<Rightarrow> WriteBuffer \<Rightarrow> nat \<Rightarrow> nat
     \<Rightarrow> Exception option \<times> 'col \<times> WriteBuffer" where
  "serializeBinaryBulk this column ostr offset limit =
     (case serializeBinaryBulk_impl this column ostr offset limit of
        (e, ostr') \<Rightarrow> (e, column, ostr'))"

definition deserializeBinaryBulk ::
  "('col, 'field) IDataType \<Rightarrow> 'col \<Rightarrow> ReadBuffer \<Rightarrow> nat \<Rightarrow> real
     \<Rightarrow> Exception option \<times> 'col \<times> ReadBuffer" where
  "deserializeBinaryBulk this column istr limit avg_value_size_hint =
     deserializeBinaryBulk_impl this column istr limit avg_value_size_hint"

subsection \<open>Multiple streams\<close>

definition IDataType_describeMultipleStreams ::
  "('col, 'field) IDataType \<Rightarrow> string list \<Rightarrow> nat \<Rightarrow> string list" where
  "IDataType_describeMultipleStreams this out_descriptions level = out_descriptions @ [[]]"

definition describeMultipleStreams ::
  "('col, 'field) IDataType \<Rightarrow> string list \<Rightarrow> nat \<Rightarrow> string list" where
  "describeMultipleStreams this out_descriptions level =
     (case describeMultipleStreams_override this of
        None \<Rightarrow> IDataType_describeMultipleStreams this out_descriptions level
      | Some f \<Rightarrow> f out_descriptions level)"

definition IDataType_serializeBinaryBulkWithMupltipleStreams ::
  "('col, 'field) IDataType \<Rightarrow> 'col \<Rightarrow> WriteBuffer list \<Rightarrow> nat \<Rightarrow> bool \<Rightarrow> nat \<Rightarrow> nat
     \<Rightarrow> (Exception option \<times> 'col \<times> WriteBuffer list) option" where
  "IDataType_serializeBinaryBulkWithMupltipleStreams this column streams num_streams
       position_independent_encoding offset limit =
     (if streams = [] then None
      else (case serializeBinaryBulk this column (streams ! 0) offset limit of
              (e, column', ostr') \<Rightarrow> Some (e, column', streams[0 := ostr'])))"

definition serializeBinaryBulkWithMupltipleStreams ::
  "('col, 'field) IDataType \<Rightarrow> 'col \<Rightarrow> WriteBuffer list \<Rightarrow> nat \<Rightarrow> bool \<Rightarrow> nat \<Rightarrow> nat
     \<Rightarrow> (Exception option \<times> 'col \<times> WriteBuffer list) option" where
  "serializeBinaryBulkWithMupltipleStreams this column streams num_streams
       position_independent_encoding offset limit =
     (case serializeBinaryBulkWithMupltipleStreams_override this of
        None \<Rightarrow> IDataType_serializeBinaryBulkWithMupltipleStreams this column streams
                  num_streams position_independent_encoding offset limit
      | Some f \<Rightarrow> f column streams num_streams position_independent_encoding offset limit)"

definition IDataType_deserializeBinaryBulkWithMultipleStreams ::
  "('col, 'field) IDataType \<Rightarrow> 'col \<Rightarrow> ReadBuffer list \<Rightarrow> nat \<Rightarrow> bool \<Rightarrow> nat \<Rightarrow> real
     \<Rightarrow> (Exception option \<times> 'col \<times> ReadBuffer list) option" where
  "IDataType_deserializeBinaryBulkWithMultipleStreams this column streams num_streams
       position_independent_encoding limit avg_value_size_hint =
     (if streams = [] then None
      else (case deserializeBinaryBulk this column (streams ! 0) limit avg_value_size_hint of
              (e, column', istr') \<Rightarrow> Some (e, column', streams[0 := istr'])))"

definition deserializeBinaryBulkWithMultipleStreams ::
  "('col, 'field) IDataType \<Rightarrow> 'col \<Rightarrow> ReadBuffer list \<Rightarrow> nat \<Rightarrow> bool \<Rightarrow> nat \<Rightarrow> real
     \<Rightarrow> (Exception option \<times> 'col \<times> ReadBuffer list) option" where
  "deserializeBinaryBulkWithMultipleStreams this column streams num_streams
       position_independent_encoding limit avg_value_size_hint =
     (case deserializeBinaryBulkWithMultipleStreams_override this of
        None \<Rightarrow> IDataType_deserializeBinaryBulkWithMultipleStreams this column streams
                  num_streams position_independent_encoding limit avg_value_size_hint
      | Some f \<Rightarrow>
          f column streams num_streams position_independent_encoding limit
            avg_value_size_hint)"

subsection \<open>Serialization of individual values\<close>

definition const_column_call ::
  "('col \<Rightarrow> nat \<Rightarrow> WriteBuffer \<Rightarrow> Exception option \<times> WriteBuffer)
     \<Rightarrow> 'col \<Rightarrow> nat \<Rightarrow> WriteBuffer \<Rightarrow> Exception option \<times> 'col \<times> WriteBuffer" where
  "const_column_call f column row_num ostr =
     (case f column row_num ostr of (e, ostr') \<Rightarrow> (e, column, ostr'))"


definition deserializeBinary ::
  "('col, 'field) IDataType \<Rightarrow> 'col \<Rightarrow> ReadBuffer \<Rightarrow> Exception option \<times> 'col \<times> ReadBuffer" where
  "deserializeBinary this column istr = deserializeBinary_impl this column istr"

definition serializeTextEscaped ::
  "('col, 'field) IDataType \<Rightarrow> 'col \<Rightarrow> nat \<Rightarrow> WriteBuffer
     \<Rightarrow> Exception option \<times> 'col \<times> WriteBuffer" where
  "serializeTextEscaped this = const_column_call (serializeTextEscaped_impl this)"

definition deserializeTextEscaped ::
  "('col, 'field) IDataType \<Rightarrow> 'col \<Rightarrow> ReadBuffer \<Rightarrow> Exception option \<times> 'col \<times> ReadBuffer" where
  "deserializeTextEscaped this column istr = deserializeTextEscaped_impl this column istr"

definition serializeTextQuoted ::
  "('col, 'field) IDataType \<Rightarrow> 'col \<Rightarrow> nat \<Rightarrow> WriteBuffer
     \<Rightarrow> Exception option \<times> 'col \<times> WriteBuffer" where
  "serializeTextQuoted this = const_column_call (serializeTextQuoted_impl this)"

definition deserializeTextQuoted ::
  "('col, 'field) IDataType \<Rightarrow> 'col \<Rightarrow> ReadBuffer \<Rightarrow> Exception option \<times> 'col \<times> ReadBuffer" where
  "deserializeTextQuoted this column istr = deserializeTextQuoted_impl this column istr"


definition deserializeTextCSV ::
  "('col, 'field) IDataType \<Rightarrow> 'col \<Rightarrow> ReadBuffer \<Rightarrow> char
     \<Rightarrow> Exception option \<times> 'col \<times> ReadBuffer" where
  "deserializeTextCSV this column istr delimiter =
     deserializeTextCSV_impl this column istr delimiter"

definition serializeText ::
  "('col, 'field) IDataType \<Rightarrow> 'col \<Rightarrow> nat \<Rightarrow> WriteBuffer
     \<Rightarrow> Exception option \<times> 'col \<times> WriteBuffer" where
  "serializeText this = const_column_call (serializeText_impl this)"

definition serializeTextJSON ::
  "('col, 'field) IDataType \<Rightarrow> 'col \<Rightarrow> nat \<Rightarrow> WriteBuffer \<Rightarrow> bool
     \<Rightarrow> Exception option \<times> 'col \<times> WriteBuffer" where
  "serializeTextJSON this column row_num ostr force_quoting_64bit_integers =
     const_column_call
       (\<lambda>c r s. serializeTextJSON_impl this c r s force_quoting_64bit_integers)
       column row_num ostr"

definition deserializeTextJSON ::
  "('col, 'field) IDataType \<Rightarrow> 'col \<Rightarrow> ReadBuffer \<Rightarrow> Exception option \<times> 'col \<times> ReadBuffer" where
  "deserializeTextJSON this column istr = deserializeTextJSON_impl this column istr"

definition IDataType_serializeTextXML ::
  "('col, 'field) IDataType \<Rightarrow> 'col \<Rightarrow> nat \<Rightarrow> WriteBuffer
     \<Rightarrow> Exception option \<times> 'col \<times> WriteBuffer" where
  "IDataType_serializeTextXML this column row_num ostr = serializeText this column row_num ostr"

definition serializeTextXML ::
  "('col, 'field) IDataType \<Rightarrow> 'col \<Rightarrow> nat \<Rightarrow> WriteBuffer
     \<Rightarrow> Exception option \<times> 'col \<times> WriteBuffer" where
  "serializeTextXML this column row_num ostr =
     (case serializeTextXML_override this of
        None \<Rightarrow> IDataType_serializeTextXML this column row_num ostr
      | Some f \<Rightarrow> const_column_call f column row_num ostr)"

text \<open>
  The two methods that work on a \<^verbatim>\<open>Field\<close> are overloads of \<^verbatim>\<open>serializeBinary\<close> and
  \<^verbatim>\<open>deserializeBinary\<close>; the suffix tells them from the methods that work on a column.
\<close>

definition serializeBinaryField ::
  "('col, 'field) IDataType \<Rightarrow> 'field \<Rightarrow> WriteBuffer \<Rightarrow> Exception option \<times> WriteBuffer" where
  "serializeBinaryField this field ostr = serializeBinaryField_impl this field ostr"

definition deserializeBinaryField ::
  "('col, 'field) IDataType \<Rightarrow> 'field \<Rightarrow> ReadBuffer
     \<Rightarrow> Exception option \<times> 'field \<times> ReadBuffer" where
  "deserializeBinaryField this field istr = deserializeBinaryField_impl this field istr"

subsection \<open>Columns and default values\<close>

definition createColumn :: "('col, 'field) IDataType \<Rightarrow> 'col" where
  "createColumn this = createColumn_impl this"

definition createConstColumn :: "('col, 'field) IDataType \<Rightarrow> nat \<Rightarrow> 'field \<Rightarrow> 'col" where
  "createConstColumn this column_size field = createConstColumn_impl this column_size field"

definition getDefault :: "('col, 'field) IDataType \<Rightarrow> 'field" where
  "getDefault this = getDefault_impl this"

subsection \<open>Size of a value\<close>

definition IDataType_getSizeOfField :: "('col, 'field) IDataType \<Rightarrow> Exception + nat" where
  "IDataType_getSizeOfField this =
     Inl (Exception (''getSizeOfField() method is not implemented for data type '' @ getName this)
            NOT_IMPLEMENTED)"

definition getSizeOfField :: "('col, 'field) IDataType \<Rightarrow> Exception + nat" where
  "getSizeOfField this =
     (case getSizeOfField_override this of
        None \<Rightarrow> IDataType_getSizeOfField this
      | Some r \<Rightarrow> r)"

section \<open>Scalar descriptors\<close>

text \<open>
  Modelled from the spec: the methods of a concrete scalar descriptor. The header declares
  \<^verbatim>\<open>serializeBinaryBulk\<close>, \<^verbatim>\<open>deserializeBinaryBulk\<close> and the per-value
  methods pure virtual; the descriptors that define them are outside the header. A column
  of a scalar type is the list of its values. The encoding of one value in each dialect is
  a parameter, since the spec leaves it to each type.
\<close>

record 'v ValueFormat =
  writeBinary :: "'v \<Rightarrow> string"
  readBinary :: "ReadBuffer \<Rightarrow> Exception + 'v \<times> ReadBuffer"
  writeEscaped :: "'v \<Rightarrow> string"
  readEscaped :: "ReadBuffer \<Rightarrow> Exception + 'v \<times> ReadBuffer"
  writeQuoted :: "'v \<Rightarrow> string"
  readQuoted :: "ReadBuffer \<Rightarrow> Exception + 'v \<times> ReadBuffer"
  writeCSV :: "'v \<Rightarrow> string"
  readCSV :: "char \<Rightarrow> ReadBuffer \<Rightarrow> Exception + 'v \<times> ReadBuffer"
  writeText :: "'v \<Rightarrow> string"
  writeJSON :: "bool \<Rightarrow> 'v \<Rightarrow> string"
  readJSON :: "ReadBuffer \<Rightarrow> Exception + 'v \<times> ReadBuffer"
  defaultValue :: 'v

text \<open>
  Modelled from the spec (4.2): \<^verbatim>\<open>serializeBinaryBulk\<close> writes the sub-range
  \<open>[offset, offset + limit)\<close> of the column, clamped to the column's length, \<open>limit = 0\<close>
  meaning to the end. The sum \<open>offset + limit\<close> is the sum of the two numbers, as the spec
  and the header's comment write it.
\<close>

definition range_end :: "nat \<Rightarrow> nat \<Rightarrow> nat \<Rightarrow> nat" where
  "range_end column_size offset limit =
     (if limit = 0 then column_size else min (offset + limit) column_size)"

definition scalar_serializeBinaryBulk ::
  "('v \<Rightarrow> string) \<Rightarrow> 'v list \<Rightarrow> WriteBuffer \<Rightarrow> nat \<Rightarrow> nat \<Rightarrow> Exception option \<times> WriteBuffer" where
  "scalar_serializeBinaryBulk wr column ostr offset limit =
     (None,
      ostr @ concat (map (\<lambda>i. wr (column ! i)) [offset ..< range_end (length column) offset limit]))"

text \<open>
  Modelled from the spec (4.2, 7, 9): \<^verbatim>\<open>deserializeBinaryBulk\<close> reads values until
  \<open>limit\<close> of them are read or the stream is exhausted between two values, whichever comes
  first; a value that cannot be decoded is an error. The decoded values are buffered
  and appended to the column in one step, only when no error occurred.
  \<open>avg_value_size_hint\<close> never affects the decoded values.
\<close>

fun readValues ::
  "(ReadBuffer \<Rightarrow> Exception + 'v \<times> ReadBuffer) \<Rightarrow> nat \<Rightarrow> ReadBuffer \<Rightarrow> 'v list
     \<Rightarrow> Exception option \<times> 'v list \<times> ReadBuffer" where
  "readValues rd 0 istr acc = (None, acc, istr)"
| "readValues rd (Suc n) istr acc =
     (if istr = [] then (None, acc, istr)
      else (case rd istr of
              Inl e \<Rightarrow> (Some e, acc, istr)
            | Inr (v, istr') \<Rightarrow> readValues rd n istr' (acc @ [v])))"

definition scalar_deserializeBinaryBulk ::
  "(ReadBuffer \<Rightarrow> Exception + 'v \<times> ReadBuffer) \<Rightarrow> 'v list \<Rightarrow> ReadBuffer \<Rightarrow> nat \<Rightarrow> real
     \<Rightarrow> Exception option \<times> 'v list \<times> ReadBuffer" where
  "scalar_deserializeBinaryBulk rd column istr limit avg_value_size_hint =
     (case readValues rd limit istr [] of
        (None, vs, istr') \<Rightarrow> (None, column @ vs, istr')
      | (Some e, vs, istr') \<Rightarrow> (Some e, column, istr'))"

text \<open>
  Modelled from the spec (4.4): a per-value serializer writes the value at \<open>row_num\<close>; a
  per-value deserializer decodes one value and appends it to the column, and leaves the
  column as it was when the value cannot be decoded. A \<open>row_num\<close> outside the column is
  outside the contract; the model writes nothing there.
\<close>

definition scalar_serializeValue ::
  "('v \<Rightarrow> string) \<Rightarrow> 'v list \<Rightarrow> nat \<Rightarrow> WriteBuffer \<Rightarrow> Exception option \<times> WriteBuffer" where
  "scalar_serializeValue wr column row_num ostr =
     (if row_num < length column then (None, ostr @ wr (column ! row_num)) else (None, ostr))"

definition scalar_deserializeValue ::
  "(ReadBuffer \<Rightarrow> Exception + 'v \<times> ReadBuffer) \<Rightarrow> 'v list \<Rightarrow> ReadBuffer
     \<Rightarrow> Exception option \<times> 'v list \<times> ReadBuffer" where
  "scalar_deserializeValue rd column istr =
     (case rd istr of
        Inl e \<Rightarrow> (Some e, column, istr)
      | Inr (v, istr') \<Rightarrow> (None, column @ [v], istr'))"

definition scalar_deserializeField ::
  "(ReadBuffer \<Rightarrow> Exception + 'v \<times> ReadBuffer) \<Rightarrow> 'v \<Rightarrow> ReadBuffer
     \<Rightarrow> Exception option \<times> 'v \<times> ReadBuffer" where
  "scalar_deserializeField rd field istr =
     (case rd istr of
        Inl e \<Rightarrow> (Some e, field, istr)
      | Inr (v, istr') \<Rightarrow> (None, v, istr'))"

text \<open>
  Modelled from the spec: a scalar descriptor of the given name and value format. It
  defines the pure virtual methods and inherits every method that has a body in
  \<^verbatim>\<open>IDataType\<close>.
\<close>

definition scalar_descriptor :: "string \<Rightarrow> 'v ValueFormat \<Rightarrow> ('v list, 'v) IDataType" where
  "scalar_descriptor name fmt =
     \<lparr> getName_impl = name,
       isNull_override = None,
       isNullable_override = None,
       isNumeric_override = None,
       isNumericNotNullable_override = None,
       behavesAsNumber_override = None,
       serializeBinaryBulk_impl = scalar_serializeBinaryBulk (writeBinary fmt),
       deserializeBinaryBulk_impl = scalar_deserializeBinaryBulk (readBinary fmt),
       describeMultipleStreams_override = None,
       serializeBinaryBulkWithMupltipleStreams_override = None,
       deserializeBinaryBulkWithMultipleStreams_override = None,
       serializeBinaryField_impl = (\<lambda>field ostr. (None, ostr @ writeBinary fmt field)),
       deserializeBinaryField_impl = scalar_deserializeField (readBinary fmt),
       serializeBinary_impl = scalar_serializeValue (writeBinary fmt),
       deserializeBinary_impl = scalar_deserializeValue (readBinary fmt),
       serializeTextEscaped_impl = scalar_serializeValue (writeEscaped fmt),
       deserializeTextEscaped_impl = scalar_deserializeValue (readEscaped fmt),
       serializeTextQuoted_impl = scalar_serializeValue (writeQuoted fmt),
       deserializeTextQuoted_impl = scalar_deserializeValue (readQuoted fmt),
       serializeTextCSV_impl = scalar_serializeValue (writeCSV fmt),
       deserializeTextCSV_impl =
         (\<lambda>column istr delimiter. scalar_deserializeValue (readCSV fmt delimiter) column istr),
       serializeText_impl = scalar_serializeValue (writeText fmt),
       serializeTextJSON_impl =
         (\<lambda>column row_num ostr force_quoting_64bit_integers.
            scalar_serializeValue (writeJSON fmt force_quoting_64bit_integers) column row_num ostr),
       deserializeTextJSON_impl = scalar_deserializeValue (readJSON fmt),
       serializeTextXML_override = None,
       createColumn_impl = [],
       createConstColumn_impl = (\<lambda>column_size field. replicate column_size field),
       getDefault_impl = defaultValue fmt,
       getSizeOfField_override = None \<rparr>"

subsection \<open>UInt64\<close>

text \<open>
  Modelled from the spec: the descriptor of the numeric type "UInt64" of the spec's example
  scenario. A value is written in binary as its eight bytes, least significant first, and
  in every text dialect as its decimal digits; the JSON dialect puts them in double quotes
  when \<open>force_quoting_64bit_integers\<close> is set.
\<close>

fun writeLE :: "nat \<Rightarrow> nat \<Rightarrow> string" where
  "writeLE 0 n = []"
| "writeLE (Suc k) n = char_of n # writeLE k (n div 256)"

fun readLE :: "string \<Rightarrow> nat" where
  "readLE [] = 0"
| "readLE (c # cs) = of_char c + 256 * readLE cs"

definition writeBinaryUInt64 :: "64 word \<Rightarrow> string" where
  "writeBinaryUInt64 x = writeLE 8 (unat x)"

definition readBinaryUInt64 :: "ReadBuffer \<Rightarrow> Exception + 64 word \<times> ReadBuffer" where
  "readBinaryUInt64 istr =
     (if length istr < 8
      then Inl (Exception ''Cannot read all data'' TRUNCATED_STREAM)
      else Inr (of_nat (readLE (take 8 istr)), drop 8 istr))"

fun writeIntText :: "nat \<Rightarrow> string" where
  "writeIntText n =
     (if n < 10 then [char_of (48 + n)]
      else writeIntText (n div 10) @ [char_of (48 + n mod 10)])"

definition isNumericASCII :: "char \<Rightarrow> bool" where
  "isNumericASCII c = (48 \<le> (of_char c :: nat) \<and> (of_char c :: nat) \<le> 57)"

fun readDigits :: "string \<Rightarrow> nat \<Rightarrow> nat \<times> string" where
  "readDigits [] x = (x, [])"
| "readDigits (c # cs) x =
     (if isNumericASCII c then readDigits cs (10 * x + (of_char c - 48)) else (x, c # cs))"

definition readIntText :: "ReadBuffer \<Rightarrow> Exception + 64 word \<times> ReadBuffer" where
  "readIntText istr =
     (case istr of
        [] \<Rightarrow> Inl (Exception ''Cannot parse number'' MALFORMED_INPUT)
      | c # cs \<Rightarrow>
          if isNumericASCII c
          then (case readDigits istr 0 of (x, istr') \<Rightarrow> Inr (of_nat x, istr'))
          else Inl (Exception ''Cannot parse number'' MALFORMED_INPUT))"

definition writeJSONUInt64 :: "bool \<Rightarrow> 64 word \<Rightarrow> string" where
  "writeJSONUInt64 force_quoting_64bit_integers x =
     (if force_quoting_64bit_integers
      then [CHR 0x22] @ writeIntText (unat x) @ [CHR 0x22]
      else writeIntText (unat x))"

definition readJSONUInt64 :: "ReadBuffer \<Rightarrow> Exception + 64 word \<times> ReadBuffer" where
  "readJSONUInt64 istr =
     (case istr of
        [] \<Rightarrow> Inl (Exception ''Cannot parse number'' MALFORMED_INPUT)
      | c # cs \<Rightarrow>
          if c = CHR 0x22
          then (case readIntText cs of
                  Inl e \<Rightarrow> Inl e
                | Inr (x, istr') \<Rightarrow>
                    (case istr' of
                       [] \<Rightarrow> Inl (Exception ''Cannot parse number'' MALFORMED_INPUT)
                     | q # istr'' \<Rightarrow>
                         if q = CHR 0x22 then Inr (x, istr'')
                         else Inl (Exception ''Cannot parse number'' MALFORMED_INPUT)))
          else readIntText istr)"

definition UInt64_format :: "64 word ValueFormat" where
  "UInt64_format =
     \<lparr> writeBinary = writeBinaryUInt64,
       readBinary = readBinaryUInt64,
       writeEscaped = (\<lambda>x. writeIntText (unat x)),
       readEscaped = readIntText,
       writeQuoted = (\<lambda>x. writeIntText (unat x)),
       readQuoted = readIntText,
       writeCSV = (\<lambda>x. writeIntText (unat x)),
       readCSV = (\<lambda>delimiter. readIntText),
       writeText = (\<lambda>x. writeIntText (unat x)),
       writeJSON = writeJSONUInt64,
       readJSON = readJSONUInt64,
       defaultValue = 0 \<rparr>"

definition DataTypeUInt64 :: "(64 word list, 64 word) IDataType" where
  "DataTypeUInt64 =
     (scalar_descriptor ''UInt64'' UInt64_format)
       \<lparr> isNumeric_override := Some True, behavesAsNumber_override := Some True \<rparr>"

subsection \<open>Fixed-width numbers\<close>



subsection \<open>String\<close>

text \<open>
  Modelled from the spec: the descriptor of the variable-width type "String". A value is a
  sequence of bytes. Its canonical binary encoding is a length prefix followed by the bytes;
  the prefix is the length in groups of seven bits, least significant first, with the high
  bit set on every byte but the last. The text dialects follow 4.4: the escaped dialect
  writes tab, newline and backslash as escape sequences and reads up to the next tab or
  newline; the quoted dialect adds single quotes and the JSON dialect double quotes,
  escaped inside the value; the CSV dialect writes double quotes, doubled inside the
  value, and reads either such a value or the bytes up to the delimiter, which it leaves
  in the stream.
\<close>

fun writeVarUInt :: "nat \<Rightarrow> string" where
  "writeVarUInt n =
     (if n < 128 then [char_of n] else char_of (128 + n mod 128) # writeVarUInt (n div 128))"

declare writeVarUInt.simps [simp del]

fun readVarUInt :: "ReadBuffer \<Rightarrow> (nat \<times> ReadBuffer) option" where
  "readVarUInt [] = None"
| "readVarUInt (c # cs) =
     (if (of_char c :: nat) < 128 then Some (of_char c, cs)
      else (case readVarUInt cs of
              None \<Rightarrow> None
            | Some (n, istr') \<Rightarrow> Some (of_char c - 128 + 128 * n, istr')))"

definition writeBinaryString :: "string \<Rightarrow> string" where
  "writeBinaryString s = writeVarUInt (length s) @ s"

definition readBinaryString :: "ReadBuffer \<Rightarrow> Exception + string \<times> ReadBuffer" where
  "readBinaryString istr =
     (case readVarUInt istr of
        None \<Rightarrow> Inl (Exception ''Cannot read all data'' TRUNCATED_STREAM)
      | Some (n, istr') \<Rightarrow>
          if length istr' < n
          then Inl (Exception ''Cannot read all data'' TRUNCATED_STREAM)
          else Inr (take n istr', drop n istr'))"

definition escapeChar :: "char list \<Rightarrow> char \<Rightarrow> string" where
  "escapeChar quotes c =
     (if c = CHR 0x09 then [CHR 0x5C, CHR ''t'']
      else if c = CHR 0x0A then [CHR 0x5C, CHR ''n'']
      else if c = CHR 0x5C \<or> c \<in> set quotes then [CHR 0x5C, c]
      else [c])"

definition unescapeChar :: "char \<Rightarrow> char option" where
  "unescapeChar c =
     (if c = CHR ''t'' then Some (CHR 0x09)
      else if c = CHR ''n'' then Some (CHR 0x0A)
      else if c = CHR 0x5C \<or> c = CHR 0x27 \<or> c = CHR 0x22 then Some c
      else None)"

fun readEscapedUntil ::
  "(char \<Rightarrow> bool) \<Rightarrow> ReadBuffer \<Rightarrow> string \<Rightarrow> Exception + string \<times> ReadBuffer" where
  "readEscapedUntil stop [] s = Inr (s, [])"
| "readEscapedUntil stop [c] s =
     (if stop c then Inr (s, [c])
      else if c = CHR 0x5C then Inl (Exception ''Cannot parse escape sequence'' MALFORMED_INPUT)
      else Inr (s @ [c], []))"
| "readEscapedUntil stop (c # d # ds) s =
     (if stop c then Inr (s, c # d # ds)
      else if c = CHR 0x5C
      then (case unescapeChar d of
              None \<Rightarrow> Inl (Exception ''Cannot parse escape sequence'' MALFORMED_INPUT)
            | Some u \<Rightarrow> readEscapedUntil stop ds (s @ [u]))
      else readEscapedUntil stop (d # ds) (s @ [c]))"

definition readDelimitedString :: "char \<Rightarrow> ReadBuffer \<Rightarrow> Exception + string \<times> ReadBuffer" where
  "readDelimitedString quote istr =
     (case istr of
        [] \<Rightarrow> Inl (Exception ''Cannot parse quoted string'' MALFORMED_INPUT)
      | c # cs \<Rightarrow>
          if c \<noteq> quote then Inl (Exception ''Cannot parse quoted string'' MALFORMED_INPUT)
          else (case readEscapedUntil (\<lambda>d. d = quote) cs [] of
                  Inl e \<Rightarrow> Inl e
                | Inr (s, []) \<Rightarrow> Inl (Exception ''Cannot parse quoted string'' MALFORMED_INPUT)
                | Inr (s, q # istr') \<Rightarrow> Inr (s, istr')))"

fun readCSVQuoted :: "ReadBuffer \<Rightarrow> string \<Rightarrow> Exception + string \<times> ReadBuffer" where
  "readCSVQuoted [] s = Inl (Exception ''Cannot parse quoted string'' MALFORMED_INPUT)"
| "readCSVQuoted [c] s =
     (if c = CHR 0x22 then Inr (s, [])
      else Inl (Exception ''Cannot parse quoted string'' MALFORMED_INPUT))"
| "readCSVQuoted (c # d # ds) s =
     (if c = CHR 0x22
      then (if d = CHR 0x22 then readCSVQuoted ds (s @ [CHR 0x22]) else Inr (s, d # ds))
      else readCSVQuoted (d # ds) (s @ [c]))"

definition readCSVString :: "char \<Rightarrow> ReadBuffer \<Rightarrow> Exception + string \<times> ReadBuffer" where
  "readCSVString delimiter istr =
     (case istr of
        [] \<Rightarrow> Inr ([], [])
      | c # cs \<Rightarrow>
          if c = CHR 0x22 then readCSVQuoted cs []
          else Inr (takeWhile (\<lambda>d. d \<noteq> delimiter \<and> d \<noteq> CHR 0x0A) istr,
                    dropWhile (\<lambda>d. d \<noteq> delimiter \<and> d \<noteq> CHR 0x0A) istr))"

definition String_format :: "string ValueFormat" where
  "String_format =
     \<lparr> writeBinary = writeBinaryString,
       readBinary = readBinaryString,
       writeEscaped = (\<lambda>s. concat (map (escapeChar []) s)),
       readEscaped = (\<lambda>istr. readEscapedUntil (\<lambda>d. d = CHR 0x09 \<or> d = CHR 0x0A) istr []),
       writeQuoted = (\<lambda>s. [CHR 0x27] @ concat (map (escapeChar [CHR 0x27]) s) @ [CHR 0x27]),
       readQuoted = readDelimitedString (CHR 0x27),
       writeCSV =
         (\<lambda>s. [CHR 0x22] @ concat (map (\<lambda>c. if c = CHR 0x22 then [c, c] else [c]) s) @
                [CHR 0x22]),
       readCSV = readCSVString,
       writeText = (\<lambda>s. s),
       writeJSON =
         (\<lambda>force_quoting_64bit_integers s.
            [CHR 0x22] @ concat (map (escapeChar [CHR 0x22]) s) @ [CHR 0x22]),
       readJSON = readDelimitedString (CHR 0x22),
       defaultValue = [] \<rparr>"

definition DataTypeString :: "(string list, string) IDataType" where
  "DataTypeString = scalar_descriptor ''String'' String_format"

subsection \<open>An overriding multiple-stream serializer\<close>


section \<open>Properties of the scalar methods\<close>

lemma map_nth_upt_drop: "map (\<lambda>i. f (xs ! i)) [k ..< length xs] = map f (drop k xs)"
proof -
  have "drop k xs = drop k (map ((!) xs) [0 ..< length xs])"
    by (simp only: map_nth)
  also have "\<dots> = map ((!) xs) [k ..< length xs]"
    by (simp only: drop_map drop_upt add_0)
  finally have "map f (drop k xs) = map f (map ((!) xs) [k ..< length xs])"
    by (rule arg_cong)
  then show ?thesis by (simp add: comp_def)
qed

text \<open>
  Reading back a sequence of encoded values: when each value's encoding is not empty and
  decodes to the value, whatever follows it, at most \<open>n\<close> reads give the first \<open>n\<close>
  values and leave the encodings of the others.
\<close>

lemma readValues_concat:
  assumes "\<forall>v\<in>set vs. \<forall>rest. rd (wr v @ rest) = Inr (v, rest)"
      and "\<forall>v\<in>set vs. wr v \<noteq> []"
  shows "readValues rd n (concat (map wr vs)) acc =
           (None, acc @ take n vs, concat (map wr (drop n vs)))"
  using assms
proof (induction vs arbitrary: n acc)
  case Nil
  show ?case by (cases n) simp_all
next
  case (Cons v vs)
  show ?case
  proof (cases n)
    case 0
    then show ?thesis by simp
  next
    case (Suc m)
    have rd: "rd (wr v @ concat (map wr vs)) = Inr (v, concat (map wr vs))"
      using Cons.prems(1) by simp
    have ne: "wr v \<noteq> []"
      using Cons.prems(2) by simp
    have "readValues rd m (concat (map wr vs)) (acc @ [v]) =
            (None, (acc @ [v]) @ take m vs, concat (map wr (drop m vs)))"
      using Cons.prems by (intro Cons.IH) simp_all
    then show ?thesis
      using Suc rd ne by simp
  qed
qed

lemma scalar_serializeBinaryBulk_to_end:
  "scalar_serializeBinaryBulk wr column ostr offset 0 =
     (None, ostr @ concat (map wr (drop offset column)))"
  by (simp add: scalar_serializeBinaryBulk_def range_end_def map_nth_upt_drop)

lemma scalar_serializeBinaryBulk_beyond:
  assumes "length column \<le> offset + limit"
  shows "scalar_serializeBinaryBulk wr column ostr offset limit =
           scalar_serializeBinaryBulk wr column ostr offset 0"
  using assms by (simp add: scalar_serializeBinaryBulk_def range_end_def min_def)

lemma scalar_deserializeBinaryBulk_concat:
  assumes "\<forall>v\<in>set vs. \<forall>rest. rd (wr v @ rest) = Inr (v, rest)"
      and "\<forall>v\<in>set vs. wr v \<noteq> []"
  shows "scalar_deserializeBinaryBulk rd column (concat (map wr vs)) n hint =
           (None, column @ take n vs, concat (map wr (drop n vs)))"
  by (simp add: scalar_deserializeBinaryBulk_def readValues_concat [OF assms])

lemma scalar_deserializeBinaryBulk_failure:
  assumes "scalar_deserializeBinaryBulk rd column istr limit hint = (Some e, column', istr')"
  shows "column' = column"
  using assms
  by (auto simp: scalar_deserializeBinaryBulk_def split: prod.splits option.splits)

subsection \<open>The binary encoding of UInt64\<close>

lemma length_writeLE: "length (writeLE k n) = k"
  by (induction k arbitrary: n) simp_all

lemma readLE_writeLE: "readLE (writeLE k n) = n mod 256 ^ k"
proof (induction k arbitrary: n)
  case 0
  show ?case by simp
next
  case (Suc k)
  have "readLE (writeLE (Suc k) n) = n mod 256 + 256 * ((n div 256) mod 256 ^ k)"
    by (simp add: Suc)
  also have "\<dots> = n mod 256 ^ Suc k"
    by (simp add: mod_mult2_eq)
  finally show ?case .
qed

lemma unat_UInt64_bound: "unat (x :: 64 word) < 256 ^ 8"
proof -
  have "unat x < 2 ^ LENGTH(64)"
    by (rule unsigned_less)
  also have "(2::nat) ^ LENGTH(64) = 256 ^ 8"
    by simp
  finally show ?thesis .
qed

lemma readLE_writeBinaryUInt64: "readLE (writeBinaryUInt64 x) = unat x"
  unfolding writeBinaryUInt64_def readLE_writeLE
  using unat_UInt64_bound [of x] by (rule mod_less)

lemma length_writeBinaryUInt64: "length (writeBinaryUInt64 x) = 8"
  unfolding writeBinaryUInt64_def by (rule length_writeLE)

lemma writeBinaryUInt64_nonempty: "writeBinaryUInt64 x \<noteq> []"
  using length_writeBinaryUInt64 [of x] by auto

lemma readBinaryUInt64_writeBinaryUInt64:
  "readBinaryUInt64 (writeBinaryUInt64 x @ rest) = Inr (x, rest)"
  by (simp add: readBinaryUInt64_def length_writeBinaryUInt64 readLE_writeBinaryUInt64)

section \<open>The methods with a body in IDataType\<close>

lemmas UInt64_defs = DataTypeUInt64_def scalar_descriptor_def UInt64_format_def

lemma writeIntText_42: "writeIntText 42 = ''42''"
  by code_simp

text \<open>
  C9: for a descriptor that does not override them, \<open>isNull\<close>, \<open>isNullable\<close>, \<open>isNumeric\<close>
  and \<open>behavesAsNumber\<close> return false, and \<open>isNumericNotNullable\<close>, when not overridden,
  returns what \<open>isNumeric\<close> returns, also when \<open>isNumeric\<close> is overridden. Each
  predicate is a function of the descriptor alone: it has no state to change.
\<close>

theorem classification_defaults:
  "(isNull_override this = None \<longrightarrow> \<not> isNull this) \<and>
   (isNullable_override this = None \<longrightarrow> \<not> isNullable this) \<and>
   (isNumeric_override this = None \<longrightarrow> \<not> isNumeric this) \<and>
   (behavesAsNumber_override this = None \<longrightarrow> \<not> behavesAsNumber this) \<and>
   (isNumericNotNullable_override this = None \<longrightarrow>
      isNumericNotNullable this = isNumeric this)"
  by (simp add: isNull_def IDataType_isNull_def isNullable_def IDataType_isNullable_def
      isNumeric_def IDataType_isNumeric_def behavesAsNumber_def IDataType_behavesAsNumber_def
      isNumericNotNullable_def IDataType_isNumericNotNullable_def)

theorem classification_defaults_witness:
  "isNull_override (scalar_descriptor ''UInt64'' UInt64_format) = None \<and>
   isNullable_override (scalar_descriptor ''UInt64'' UInt64_format) = None \<and>
   isNumeric_override (scalar_descriptor ''UInt64'' UInt64_format) = None \<and>
   behavesAsNumber_override (scalar_descriptor ''UInt64'' UInt64_format) = None \<and>
   isNumericNotNullable_override (scalar_descriptor ''UInt64'' UInt64_format) = None \<and>
   \<not> isNull (scalar_descriptor ''UInt64'' UInt64_format) \<and>
   \<not> isNullable (scalar_descriptor ''UInt64'' UInt64_format) \<and>
   \<not> isNumeric (scalar_descriptor ''UInt64'' UInt64_format) \<and>
   \<not> behavesAsNumber (scalar_descriptor ''UInt64'' UInt64_format) \<and>
   \<not> isNumericNotNullable (scalar_descriptor ''UInt64'' UInt64_format) \<and>
   isNumericNotNullable_override DataTypeUInt64 = None \<and>
   isNumeric_override DataTypeUInt64 = Some True \<and>
   isNumericNotNullable DataTypeUInt64"
  using classification_defaults [of "scalar_descriptor ''UInt64'' UInt64_format"]
    classification_defaults [of DataTypeUInt64]
  by (simp add: DataTypeUInt64_def scalar_descriptor_def isNumeric_def)

text \<open>
  C6: for a descriptor that does not override it, \<open>describeMultipleStreams\<close> appends
  exactly one element, the empty string, to \<open>out_descriptions\<close>, keeps the elements that
  were there, and does the same at every \<open>level\<close>.
\<close>

theorem describeMultipleStreams_default:
  assumes "describeMultipleStreams_override this = None"
  shows "describeMultipleStreams this out_descriptions level = out_descriptions @ [''''] \<and>
         describeMultipleStreams this out_descriptions level' =
           describeMultipleStreams this out_descriptions level"
  using assms by (simp add: describeMultipleStreams_def IDataType_describeMultipleStreams_def)

theorem describeMultipleStreams_default_witness:
  "describeMultipleStreams_override DataTypeUInt64 = None \<and>
   describeMultipleStreams DataTypeUInt64 [''.size0''] 1 = [''.size0'', ''''] \<and>
   describeMultipleStreams DataTypeUInt64 [''.size0''] 0 =
     describeMultipleStreams DataTypeUInt64 [''.size0''] 1"
  using describeMultipleStreams_default [of DataTypeUInt64 "[''.size0'']" 1 0]
  by (simp add: DataTypeUInt64_def scalar_descriptor_def)

text \<open>
  C7: for a descriptor that does not override it, \<open>getSizeOfField\<close> raises an exception
  of code \<open>NOT_IMPLEMENTED\<close> whose message ends with the descriptor's name, and returns
  no size.
\<close>

theorem getSizeOfField_default:
  assumes "getSizeOfField_override this = None"
  shows "getSizeOfField this =
           Inl (Exception
                  (''getSizeOfField() method is not implemented for data type '' @ getName this)
                  NOT_IMPLEMENTED) \<and>
         (\<forall>n. getSizeOfField this \<noteq> Inr n)"
  using assms by (simp add: getSizeOfField_def IDataType_getSizeOfField_def)

theorem getSizeOfField_default_witness:
  "getSizeOfField_override DataTypeUInt64 = None \<and>
   getSizeOfField DataTypeUInt64 =
     Inl (Exception ''getSizeOfField() method is not implemented for data type UInt64''
            NOT_IMPLEMENTED)"
  using getSizeOfField_default [of DataTypeUInt64]
  by (simp add: DataTypeUInt64_def scalar_descriptor_def getName_def)

text \<open>
  C8: for a descriptor that does not override it, \<open>serializeTextXML\<close> does what
  \<open>serializeText\<close> does on the same arguments: the same exception, if any, and the same
  bytes written.
\<close>

theorem serializeTextXML_default:
  assumes "serializeTextXML_override this = None"
  shows "serializeTextXML this column row_num ostr = serializeText this column row_num ostr"
  using assms by (simp add: serializeTextXML_def IDataType_serializeTextXML_def)

theorem serializeTextXML_default_witness:
  "serializeTextXML_override DataTypeUInt64 = None \<and>
   serializeTextXML DataTypeUInt64 [7, 42] 1 ''<v>'' = (None, [7, 42], ''<v>42'') \<and>
   serializeText DataTypeUInt64 [7, 42] 1 ''<v>'' = (None, [7, 42], ''<v>42'')"
proof -
  have ov: "serializeTextXML_override DataTypeUInt64 = None"
    by (simp add: DataTypeUInt64_def scalar_descriptor_def)
  have plain: "serializeText DataTypeUInt64 [7, 42] 1 ''<v>'' = (None, [7, 42], ''<v>42'')"
    by (simp add: serializeText_def const_column_call_def UInt64_defs
        scalar_serializeValue_def writeIntText_42 del: writeIntText.simps)
  show ?thesis
    using serializeTextXML_default [OF ov, of "[7, 42]" 1 "''<v>''"] ov plain by simp
qed

subsection \<open>Concrete values of the UInt64 encoding\<close>

lemma writeLE_8:
  "writeLE 8 n =
     [char_of n, char_of (n div 256), char_of (n div 256 div 256),
      char_of (n div 256 div 256 div 256), char_of (n div 256 div 256 div 256 div 256),
      char_of (n div 256 div 256 div 256 div 256 div 256),
      char_of (n div 256 div 256 div 256 div 256 div 256 div 256),
      char_of (n div 256 div 256 div 256 div 256 div 256 div 256 div 256)]"
proof -
  have "(8::nat) = Suc (Suc (Suc (Suc (Suc (Suc (Suc (Suc 0)))))))"
    by simp
  then show ?thesis
    by (simp only: writeLE.simps)
qed

lemma writeBinaryUInt64_examples:
  "writeBinaryUInt64 0 =
     [CHR 0x00, CHR 0x00, CHR 0x00, CHR 0x00, CHR 0x00, CHR 0x00, CHR 0x00, CHR 0x00]"
  "writeBinaryUInt64 1 =
     [CHR 0x01, CHR 0x00, CHR 0x00, CHR 0x00, CHR 0x00, CHR 0x00, CHR 0x00, CHR 0x00]"
  "writeBinaryUInt64 18446744073709551615 =
     [CHR 0xFF, CHR 0xFF, CHR 0xFF, CHR 0xFF, CHR 0xFF, CHR 0xFF, CHR 0xFF, CHR 0xFF]"
  by (simp_all add: writeBinaryUInt64_def writeLE_8 char_of_def bit_0)

lemma readBinaryUInt64_examples:
  "readBinaryUInt64
     [CHR 0x01, CHR 0x00, CHR 0x00, CHR 0x00, CHR 0x00, CHR 0x00, CHR 0x00, CHR 0x00,
      CHR 0xFF, CHR 0xFF, CHR 0xFF, CHR 0xFF, CHR 0xFF, CHR 0xFF, CHR 0xFF, CHR 0xFF] =
     Inr (1, [CHR 0xFF, CHR 0xFF, CHR 0xFF, CHR 0xFF, CHR 0xFF, CHR 0xFF, CHR 0xFF, CHR 0xFF])"
  "readBinaryUInt64
     [CHR 0xFF, CHR 0xFF, CHR 0xFF, CHR 0xFF, CHR 0xFF, CHR 0xFF, CHR 0xFF, CHR 0xFF] =
     Inr (18446744073709551615, [])"
  by (simp_all add: readBinaryUInt64_def)

text \<open>
  C4: for a descriptor that does not override it, and an array of at least one buffer,
  \<open>serializeBinaryBulkWithMupltipleStreams\<close> does what \<open>serializeBinaryBulk\<close> does on
  the first buffer: the same exception, if any, the same bytes written to the first
  buffer, every other buffer as it was; \<open>num_streams\<close> and
  \<open>position_independent_encoding\<close> do not change the result.
\<close>

theorem serializeBinaryBulkWithMupltipleStreams_default:
  assumes "serializeBinaryBulkWithMupltipleStreams_override this = None"
      and "streams \<noteq> []"
  shows "serializeBinaryBulkWithMupltipleStreams this column streams num_streams
             position_independent_encoding offset limit =
           (case serializeBinaryBulk this column (streams ! 0) offset limit of
              (e, column', ostr') \<Rightarrow> Some (e, column', streams[0 := ostr'])) \<and>
         serializeBinaryBulkWithMupltipleStreams this column streams num_streams'
             position_independent_encoding' offset limit =
           serializeBinaryBulkWithMupltipleStreams this column streams num_streams
             position_independent_encoding offset limit"
  using assms
  by (simp add: serializeBinaryBulkWithMupltipleStreams_def
      IDataType_serializeBinaryBulkWithMupltipleStreams_def)

lemma serializeBinaryBulk_UInt64_example:
  "serializeBinaryBulk DataTypeUInt64 [0, 1, 18446744073709551615] ''#'' 2 0 =
     (None, [0, 1, 18446744073709551615],
      [CHR ''#'',
       CHR 0xFF, CHR 0xFF, CHR 0xFF, CHR 0xFF, CHR 0xFF, CHR 0xFF, CHR 0xFF, CHR 0xFF])"
  by (simp add: serializeBinaryBulk_def UInt64_defs scalar_serializeBinaryBulk_to_end
      writeBinaryUInt64_examples)

theorem serializeBinaryBulkWithMupltipleStreams_default_witness:
  "serializeBinaryBulkWithMupltipleStreams_override DataTypeUInt64 = None \<and>
   [''#'', ''other''] \<noteq> [] \<and>
   serializeBinaryBulkWithMupltipleStreams DataTypeUInt64 [0, 1, 18446744073709551615]
       [''#'', ''other''] 2 True 2 0 =
     Some (None, [0, 1, 18446744073709551615],
       [[CHR ''#'',
         CHR 0xFF, CHR 0xFF, CHR 0xFF, CHR 0xFF, CHR 0xFF, CHR 0xFF, CHR 0xFF, CHR 0xFF],
        ''other'']) \<and>
   serializeBinaryBulkWithMupltipleStreams DataTypeUInt64 [0, 1, 18446744073709551615]
       [''#'', ''other''] 0 False 2 0 =
     serializeBinaryBulkWithMupltipleStreams DataTypeUInt64 [0, 1, 18446744073709551615]
       [''#'', ''other''] 2 True 2 0"
proof -
  have ov: "serializeBinaryBulkWithMupltipleStreams_override DataTypeUInt64 = None"
    by (simp add: DataTypeUInt64_def scalar_descriptor_def)
  have ne: "[''#'', ''other''] \<noteq> []"
    by simp
  show ?thesis
    using serializeBinaryBulkWithMupltipleStreams_default
      [OF ov ne, of "[0, 1, 18446744073709551615]" 2 True 2 0 0 False] ov
    by (simp add: serializeBinaryBulk_UInt64_example)
qed

text \<open>
  C5: for a descriptor that does not override it, and an array of at least one buffer,
  \<open>deserializeBinaryBulkWithMultipleStreams\<close> does what \<open>deserializeBinaryBulk\<close> does
  on the first buffer: the same exception, if any, the same column, the same bytes
  consumed from the first buffer, every other buffer as it was; \<open>num_streams\<close> and
  \<open>position_independent_encoding\<close> do not change the result.
\<close>

theorem deserializeBinaryBulkWithMultipleStreams_default:
  assumes "deserializeBinaryBulkWithMultipleStreams_override this = None"
      and "streams \<noteq> []"
  shows "deserializeBinaryBulkWithMultipleStreams this column streams num_streams
             position_independent_encoding limit avg_value_size_hint =
           (case deserializeBinaryBulk this column (streams ! 0) limit avg_value_size_hint of
              (e, column', istr') \<Rightarrow> Some (e, column', streams[0 := istr'])) \<and>
         deserializeBinaryBulkWithMultipleStreams this column streams num_streams'
             position_independent_encoding' limit avg_value_size_hint =
           deserializeBinaryBulkWithMultipleStreams this column streams num_streams
             position_independent_encoding limit avg_value_size_hint"
  using assms
  by (simp add: deserializeBinaryBulkWithMultipleStreams_def
      IDataType_deserializeBinaryBulkWithMultipleStreams_def)

lemma deserializeBinaryBulk_UInt64_example:
  "deserializeBinaryBulk DataTypeUInt64 [7]
     [CHR 0x01, CHR 0x00, CHR 0x00, CHR 0x00, CHR 0x00, CHR 0x00, CHR 0x00, CHR 0x00,
      CHR 0xFF, CHR 0xFF, CHR 0xFF, CHR 0xFF, CHR 0xFF, CHR 0xFF, CHR 0xFF, CHR 0xFF] 2 0 =
     (None, [7, 1, 18446744073709551615], [])"
  by (simp add: deserializeBinaryBulk_def UInt64_defs scalar_deserializeBinaryBulk_def
      numeral_2_eq_2 readBinaryUInt64_examples)

theorem deserializeBinaryBulkWithMultipleStreams_default_witness:
  "deserializeBinaryBulkWithMultipleStreams_override DataTypeUInt64 = None \<and>
   [[CHR 0x01, CHR 0x00, CHR 0x00, CHR 0x00, CHR 0x00, CHR 0x00, CHR 0x00, CHR 0x00,
     CHR 0xFF, CHR 0xFF, CHR 0xFF, CHR 0xFF, CHR 0xFF, CHR 0xFF, CHR 0xFF, CHR 0xFF],
    ''other''] \<noteq> [] \<and>
   deserializeBinaryBulkWithMultipleStreams DataTypeUInt64 [7]
       [[CHR 0x01, CHR 0x00, CHR 0x00, CHR 0x00, CHR 0x00, CHR 0x00, CHR 0x00, CHR 0x00,
         CHR 0xFF, CHR 0xFF, CHR 0xFF, CHR 0xFF, CHR 0xFF, CHR 0xFF, CHR 0xFF, CHR 0xFF],
        ''other''] 2 True 2 0 =
     Some (None, [7, 1, 18446744073709551615], [[], ''other'']) \<and>
   deserializeBinaryBulkWithMultipleStreams DataTypeUInt64 [7]
       [[CHR 0x01, CHR 0x00, CHR 0x00, CHR 0x00, CHR 0x00, CHR 0x00, CHR 0x00, CHR 0x00,
         CHR 0xFF, CHR 0xFF, CHR 0xFF, CHR 0xFF, CHR 0xFF, CHR 0xFF, CHR 0xFF, CHR 0xFF],
        ''other''] 0 False 2 0 =
     deserializeBinaryBulkWithMultipleStreams DataTypeUInt64 [7]
       [[CHR 0x01, CHR 0x00, CHR 0x00, CHR 0x00, CHR 0x00, CHR 0x00, CHR 0x00, CHR 0x00,
         CHR 0xFF, CHR 0xFF, CHR 0xFF, CHR 0xFF, CHR 0xFF, CHR 0xFF, CHR 0xFF, CHR 0xFF],
        ''other''] 2 True 2 0"
proof -
  have ov: "deserializeBinaryBulkWithMultipleStreams_override DataTypeUInt64 = None"
    by (simp add: DataTypeUInt64_def scalar_descriptor_def)
  have ne: "[[CHR 0x01, CHR 0x00, CHR 0x00, CHR 0x00, CHR 0x00, CHR 0x00, CHR 0x00, CHR 0x00,
     CHR 0xFF, CHR 0xFF, CHR 0xFF, CHR 0xFF, CHR 0xFF, CHR 0xFF, CHR 0xFF, CHR 0xFF],
    ''other''] \<noteq> []"
    by simp
  show ?thesis
    using deserializeBinaryBulkWithMultipleStreams_default
      [OF ov ne, of "[7]" 2 True 2 0 0 False] ov
    by (simp add: deserializeBinaryBulk_UInt64_example)
qed





section \<open>The bulk and per-value methods of a scalar descriptor\<close>

text \<open>
  C3: for a descriptor whose \<open>serializeBinaryBulk\<close> is the scalar one, and
  \<open>offset\<close> at most the column's length: \<open>limit = 0\<close> writes the values from \<open>offset\<close>
  to the end of the column; an \<open>offset + limit\<close> beyond the column's length writes
  what \<open>limit = 0\<close> writes; and \<open>offset\<close> equal to the column's length writes nothing,
  whatever \<open>limit\<close> is.
\<close>

theorem serializeBinaryBulk_range:
  assumes "serializeBinaryBulk_impl this = scalar_serializeBinaryBulk wr"
      and "offset \<le> length column"
  shows "serializeBinaryBulk this column ostr offset 0 =
           (None, column, ostr @ concat (map wr (drop offset column))) \<and>
         (length column < offset + limit \<longrightarrow>
            serializeBinaryBulk this column ostr offset limit =
              serializeBinaryBulk this column ostr offset 0) \<and>
         (offset = length column \<longrightarrow>
            serializeBinaryBulk this column ostr offset limit = (None, column, ostr))"
proof -
  have to_end: "serializeBinaryBulk this column ostr offset 0 =
      (None, column, ostr @ concat (map wr (drop offset column)))"
    by (simp add: serializeBinaryBulk_def assms(1) scalar_serializeBinaryBulk_to_end)
  have beyond: "serializeBinaryBulk this column ostr offset limit =
      serializeBinaryBulk this column ostr offset 0"
    if "length column \<le> offset + limit"
    using that
    by (simp add: serializeBinaryBulk_def assms(1) scalar_serializeBinaryBulk_beyond)
  have empty_range: "serializeBinaryBulk this column ostr offset limit = (None, column, ostr)"
    if "offset = length column"
  proof -
    have "serializeBinaryBulk this column ostr offset limit =
        serializeBinaryBulk this column ostr offset 0"
      using that by (intro beyond) simp
    with to_end that show ?thesis by simp
  qed
  show ?thesis
  proof (intro conjI impI)
    show "serializeBinaryBulk this column ostr offset 0 =
        (None, column, ostr @ concat (map wr (drop offset column)))"
      by (rule to_end)
  next
    assume "length column < offset + limit"
    then show "serializeBinaryBulk this column ostr offset limit =
        serializeBinaryBulk this column ostr offset 0"
      by (intro beyond) simp
  next
    assume at_end: "offset = length column"
    show "serializeBinaryBulk this column ostr offset limit = (None, column, ostr)"
      by (rule empty_range [OF at_end])
  qed
qed

theorem serializeBinaryBulk_range_witness:
  "serializeBinaryBulk_impl DataTypeUInt64 = scalar_serializeBinaryBulk writeBinaryUInt64 \<and>
   2 \<le> length [0, 1, 18446744073709551615 :: 64 word] \<and>
   length [0, 1, 18446744073709551615 :: 64 word] < 2 + 5 \<and>
   serializeBinaryBulk DataTypeUInt64 [0, 1, 18446744073709551615] ''#'' 2 0 =
     (None, [0, 1, 18446744073709551615],
      [CHR ''#'',
       CHR 0xFF, CHR 0xFF, CHR 0xFF, CHR 0xFF, CHR 0xFF, CHR 0xFF, CHR 0xFF, CHR 0xFF]) \<and>
   serializeBinaryBulk DataTypeUInt64 [0, 1, 18446744073709551615] ''#'' 2 5 =
     (None, [0, 1, 18446744073709551615],
      [CHR ''#'',
       CHR 0xFF, CHR 0xFF, CHR 0xFF, CHR 0xFF, CHR 0xFF, CHR 0xFF, CHR 0xFF, CHR 0xFF]) \<and>
   3 = length [0, 1, 18446744073709551615 :: 64 word] \<and>
   serializeBinaryBulk DataTypeUInt64 [0, 1, 18446744073709551615] ''#'' 3 5 =
     (None, [0, 1, 18446744073709551615], ''#'')"
proof -
  have impl: "serializeBinaryBulk_impl DataTypeUInt64 =
      scalar_serializeBinaryBulk writeBinaryUInt64"
    by (simp add: UInt64_defs)
  have le2: "2 \<le> length [0, 1, 18446744073709551615 :: 64 word]"
    by simp
  have le3: "3 \<le> length [0, 1, 18446744073709551615 :: 64 word]"
    by simp
  show ?thesis
    using serializeBinaryBulk_range [OF impl le2, of "''#''" 5]
      serializeBinaryBulk_range [OF impl le3, of "''#''" 5] impl
    by (simp add: writeBinaryUInt64_examples)
qed

subsection \<open>The binary encodings of numbers and of String\<close>














lemma scalar_deserializeBinaryBulk_failure_column:
  assumes "fst (scalar_deserializeBinaryBulk rd column istr limit hint) \<noteq> None"
  shows "fst (snd (scalar_deserializeBinaryBulk rd column istr limit hint)) = column"
  using assms
  by (auto simp: scalar_deserializeBinaryBulk_def split: prod.splits option.splits)

lemma scalar_deserializeValue_failure_column:
  assumes "fst (scalar_deserializeValue rd column istr) \<noteq> None"
  shows "fst (snd (scalar_deserializeValue rd column istr)) = column"
  using assms
  by (auto simp: scalar_deserializeValue_def split: sum.splits prod.splits)

text \<open>
  C2: for a descriptor whose deserialization methods are the scalar ones, a call of
  \<open>deserializeBinaryBulk\<close>, \<open>deserializeBinary\<close>, \<open>deserializeTextEscaped\<close>,
  \<open>deserializeTextQuoted\<close>, \<open>deserializeTextCSV\<close> or \<open>deserializeTextJSON\<close> that
  raises an exception leaves the column as it was before the call; so does a call of
  \<open>deserializeBinaryBulkWithMultipleStreams\<close> when the descriptor does not override it.
\<close>

theorem deserialization_failure_leaves_column:
  assumes "deserializeBinaryBulk_impl this = scalar_deserializeBinaryBulk rd_bulk"
      and "deserializeBinary_impl this = scalar_deserializeValue rd_binary"
      and "deserializeTextEscaped_impl this = scalar_deserializeValue rd_escaped"
      and "deserializeTextQuoted_impl this = scalar_deserializeValue rd_quoted"
      and "deserializeTextCSV_impl this =
             (\<lambda>column istr delimiter. scalar_deserializeValue (rd_csv delimiter) column istr)"
      and "deserializeTextJSON_impl this = scalar_deserializeValue rd_json"
  shows "(fst (deserializeBinaryBulk this column istr limit avg_value_size_hint) \<noteq> None \<longrightarrow>
            fst (snd (deserializeBinaryBulk this column istr limit avg_value_size_hint)) =
              column) \<and>
         (fst (deserializeBinary this column istr) \<noteq> None \<longrightarrow>
            fst (snd (deserializeBinary this column istr)) = column) \<and>
         (fst (deserializeTextEscaped this column istr) \<noteq> None \<longrightarrow>
            fst (snd (deserializeTextEscaped this column istr)) = column) \<and>
         (fst (deserializeTextQuoted this column istr) \<noteq> None \<longrightarrow>
            fst (snd (deserializeTextQuoted this column istr)) = column) \<and>
         (fst (deserializeTextCSV this column istr delimiter) \<noteq> None \<longrightarrow>
            fst (snd (deserializeTextCSV this column istr delimiter)) = column) \<and>
         (fst (deserializeTextJSON this column istr) \<noteq> None \<longrightarrow>
            fst (snd (deserializeTextJSON this column istr)) = column) \<and>
         (deserializeBinaryBulkWithMultipleStreams_override this = None \<longrightarrow>
            (\<forall>e column' streams'.
               deserializeBinaryBulkWithMultipleStreams this column (istr # streams) num_streams
                   position_independent_encoding limit avg_value_size_hint =
                 Some (Some e, column', streams') \<longrightarrow>
               column' = column))"
proof -
  note bulk = scalar_deserializeBinaryBulk_failure_column
  note single = scalar_deserializeValue_failure_column
  have multi: "column' = column"
    if not_overridden: "deserializeBinaryBulkWithMultipleStreams_override this = None"
      and failed: "deserializeBinaryBulkWithMultipleStreams this column (istr # streams)
             num_streams position_independent_encoding limit avg_value_size_hint =
           Some (Some e, column', streams')"
    for e column' streams'
  proof -
    from not_overridden failed
    have "scalar_deserializeBinaryBulk rd_bulk column istr limit avg_value_size_hint =
        (Some e, column', hd streams')"
      by (auto simp: deserializeBinaryBulkWithMultipleStreams_def
          IDataType_deserializeBinaryBulkWithMultipleStreams_def deserializeBinaryBulk_def
          assms(1) split: prod.splits)
    then show ?thesis
      by (rule scalar_deserializeBinaryBulk_failure)
  qed
  show ?thesis
  proof (intro conjI impI allI)
    assume "fst (deserializeBinaryBulk this column istr limit avg_value_size_hint) \<noteq> None"
    then show "fst (snd (deserializeBinaryBulk this column istr limit avg_value_size_hint)) =
        column"
      by (simp add: deserializeBinaryBulk_def assms(1) bulk)
  next
    assume "fst (deserializeBinary this column istr) \<noteq> None"
    then show "fst (snd (deserializeBinary this column istr)) = column"
      by (simp add: deserializeBinary_def assms(2) single)
  next
    assume "fst (deserializeTextEscaped this column istr) \<noteq> None"
    then show "fst (snd (deserializeTextEscaped this column istr)) = column"
      by (simp add: deserializeTextEscaped_def assms(3) single)
  next
    assume "fst (deserializeTextQuoted this column istr) \<noteq> None"
    then show "fst (snd (deserializeTextQuoted this column istr)) = column"
      by (simp add: deserializeTextQuoted_def assms(4) single)
  next
    assume "fst (deserializeTextCSV this column istr delimiter) \<noteq> None"
    then show "fst (snd (deserializeTextCSV this column istr delimiter)) = column"
      by (simp add: deserializeTextCSV_def assms(5) single)
  next
    assume "fst (deserializeTextJSON this column istr) \<noteq> None"
    then show "fst (snd (deserializeTextJSON this column istr)) = column"
      by (simp add: deserializeTextJSON_def assms(6) single)
  next
    fix e column' streams'
    assume "deserializeBinaryBulkWithMultipleStreams_override this = None"
      and "deserializeBinaryBulkWithMultipleStreams this column (istr # streams) num_streams
             position_independent_encoding limit avg_value_size_hint =
           Some (Some e, column', streams')"
    then show "column' = column"
      by (rule multi)
  qed
qed

lemma deserialize_UInt64_failures:
  "deserializeBinaryBulk DataTypeUInt64 [7]
     [CHR 0x01, CHR 0x00, CHR 0x00, CHR 0x00, CHR 0x00, CHR 0x00, CHR 0x00, CHR 0x00,
      CHR ''1'', CHR ''2'', CHR 0x22] 3 0 =
     (Some (Exception ''Cannot read all data'' TRUNCATED_STREAM), [7],
      [CHR ''1'', CHR ''2'', CHR 0x22])"
  "deserializeBinary DataTypeUInt64 [7] [CHR 0x22, CHR ''1'', CHR ''2''] =
     (Some (Exception ''Cannot read all data'' TRUNCATED_STREAM), [7],
      [CHR 0x22, CHR ''1'', CHR ''2''])"
  "deserializeTextEscaped DataTypeUInt64 [7] [CHR 0x22, CHR ''1'', CHR ''2''] =
     (Some (Exception ''Cannot parse number'' MALFORMED_INPUT), [7],
      [CHR 0x22, CHR ''1'', CHR ''2''])"
  "deserializeTextQuoted DataTypeUInt64 [7] [CHR 0x22, CHR ''1'', CHR ''2''] =
     (Some (Exception ''Cannot parse number'' MALFORMED_INPUT), [7],
      [CHR 0x22, CHR ''1'', CHR ''2''])"
  "deserializeTextCSV DataTypeUInt64 [7] [CHR 0x22, CHR ''1'', CHR ''2''] CHR '','' =
     (Some (Exception ''Cannot parse number'' MALFORMED_INPUT), [7],
      [CHR 0x22, CHR ''1'', CHR ''2''])"
  "deserializeTextJSON DataTypeUInt64 [7] [CHR 0x22, CHR ''1'', CHR ''2''] =
     (Some (Exception ''Cannot parse number'' MALFORMED_INPUT), [7],
      [CHR 0x22, CHR ''1'', CHR ''2''])"
  by (simp_all add: deserializeBinaryBulk_def deserializeBinary_def deserializeTextEscaped_def
      deserializeTextQuoted_def deserializeTextCSV_def deserializeTextJSON_def UInt64_defs
      scalar_deserializeBinaryBulk_def scalar_deserializeValue_def numeral_3_eq_3
      readBinaryUInt64_def readIntText_def readJSONUInt64_def isNumericASCII_def)

theorem deserialization_failure_leaves_column_witness:
  "deserializeBinaryBulk_impl DataTypeUInt64 = scalar_deserializeBinaryBulk readBinaryUInt64 \<and>
   deserializeBinary_impl DataTypeUInt64 = scalar_deserializeValue readBinaryUInt64 \<and>
   deserializeTextEscaped_impl DataTypeUInt64 = scalar_deserializeValue readIntText \<and>
   deserializeTextQuoted_impl DataTypeUInt64 = scalar_deserializeValue readIntText \<and>
   deserializeTextCSV_impl DataTypeUInt64 =
     (\<lambda>column istr delimiter. scalar_deserializeValue readIntText column istr) \<and>
   deserializeTextJSON_impl DataTypeUInt64 = scalar_deserializeValue readJSONUInt64 \<and>
   deserializeBinaryBulkWithMultipleStreams_override DataTypeUInt64 = None \<and>
   fst (deserializeBinaryBulk DataTypeUInt64 [7]
          [CHR 0x01, CHR 0x00, CHR 0x00, CHR 0x00, CHR 0x00, CHR 0x00, CHR 0x00, CHR 0x00,
           CHR ''1'', CHR ''2'', CHR 0x22] 3 0) \<noteq> None \<and>
   fst (snd (deserializeBinaryBulk DataTypeUInt64 [7]
          [CHR 0x01, CHR 0x00, CHR 0x00, CHR 0x00, CHR 0x00, CHR 0x00, CHR 0x00, CHR 0x00,
           CHR ''1'', CHR ''2'', CHR 0x22] 3 0)) = [7] \<and>
   fst (deserializeBinary DataTypeUInt64 [7] [CHR 0x22, CHR ''1'', CHR ''2'']) \<noteq> None \<and>
   fst (snd (deserializeBinary DataTypeUInt64 [7] [CHR 0x22, CHR ''1'', CHR ''2''])) = [7] \<and>
   fst (deserializeTextEscaped DataTypeUInt64 [7] [CHR 0x22, CHR ''1'', CHR ''2'']) \<noteq> None \<and>
   fst (snd (deserializeTextEscaped DataTypeUInt64 [7] [CHR 0x22, CHR ''1'', CHR ''2''])) =
     [7] \<and>
   fst (deserializeTextQuoted DataTypeUInt64 [7] [CHR 0x22, CHR ''1'', CHR ''2'']) \<noteq> None \<and>
   fst (snd (deserializeTextQuoted DataTypeUInt64 [7] [CHR 0x22, CHR ''1'', CHR ''2''])) =
     [7] \<and>
   fst (deserializeTextCSV DataTypeUInt64 [7] [CHR 0x22, CHR ''1'', CHR ''2''] CHR '','') \<noteq>
     None \<and>
   fst (snd (deserializeTextCSV DataTypeUInt64 [7] [CHR 0x22, CHR ''1'', CHR ''2''] CHR '','')) =
     [7] \<and>
   fst (deserializeTextJSON DataTypeUInt64 [7] [CHR 0x22, CHR ''1'', CHR ''2'']) \<noteq> None \<and>
   fst (snd (deserializeTextJSON DataTypeUInt64 [7] [CHR 0x22, CHR ''1'', CHR ''2''])) = [7] \<and>
   deserializeBinaryBulkWithMultipleStreams DataTypeUInt64 [7]
       [[CHR 0x22, CHR ''1'', CHR ''2''], ''other''] 2 False 3 0 =
     Some (Some (Exception ''Cannot read all data'' TRUNCATED_STREAM), [7],
           [[CHR 0x22, CHR ''1'', CHR ''2''], ''other''])"
proof -
  have impls:
    "deserializeBinaryBulk_impl DataTypeUInt64 = scalar_deserializeBinaryBulk readBinaryUInt64"
    "deserializeBinary_impl DataTypeUInt64 = scalar_deserializeValue readBinaryUInt64"
    "deserializeTextEscaped_impl DataTypeUInt64 = scalar_deserializeValue readIntText"
    "deserializeTextQuoted_impl DataTypeUInt64 = scalar_deserializeValue readIntText"
    "deserializeTextCSV_impl DataTypeUInt64 =
       (\<lambda>column istr delimiter. scalar_deserializeValue readIntText column istr)"
    "deserializeTextJSON_impl DataTypeUInt64 = scalar_deserializeValue readJSONUInt64"
    by (simp_all add: UInt64_defs)
  have ov: "deserializeBinaryBulkWithMultipleStreams_override DataTypeUInt64 = None"
    by (simp add: UInt64_defs)
  have multi: "deserializeBinaryBulkWithMultipleStreams DataTypeUInt64 [7]
       [[CHR 0x22, CHR ''1'', CHR ''2''], ''other''] 2 False 3 0 =
     Some (Some (Exception ''Cannot read all data'' TRUNCATED_STREAM), [7],
           [[CHR 0x22, CHR ''1'', CHR ''2''], ''other''])"
    by (simp add: deserializeBinaryBulkWithMultipleStreams_def ov
        IDataType_deserializeBinaryBulkWithMultipleStreams_def deserializeBinaryBulk_def
        impls(1) scalar_deserializeBinaryBulk_def numeral_3_eq_3 readBinaryUInt64_def)
  note thm1 = deserialization_failure_leaves_column
    [OF impls, of "[7]"
       "[CHR 0x01, CHR 0x00, CHR 0x00, CHR 0x00, CHR 0x00, CHR 0x00, CHR 0x00, CHR 0x00,
         CHR ''1'', CHR ''2'', CHR 0x22]" 3 0 "CHR '',''" "[''other'']" 2 False]
  note thm2 = deserialization_failure_leaves_column
    [OF impls, of "[7]" "[CHR 0x22, CHR ''1'', CHR ''2'']" 3 0 "CHR '',''" "[''other'']" 2 False]
  show ?thesis
    using thm1 thm2 impls ov multi
    by (simp add: deserialize_UInt64_failures)
qed

subsection \<open>The example scenario of the spec\<close>

text \<open>
  The values \<open>[0, 1, 18446744073709551615]\<close> of type "UInt64", serialized in bulk and read
  back with a limit of two, give \<open>[0, 1]\<close>; the largest value is written in JSON in double
  quotes when \<open>force_quoting_64bit_integers\<close> is set, and bare otherwise.
\<close>

lemma UInt64_bulk_limit_2:
  "deserializeBinaryBulk DataTypeUInt64 []
     (snd (snd (serializeBinaryBulk DataTypeUInt64 [0, 1, 18446744073709551615] [] 0 0))) 2 0 =
     (None, [0, 1],
      [CHR 0xFF, CHR 0xFF, CHR 0xFF, CHR 0xFF, CHR 0xFF, CHR 0xFF, CHR 0xFF, CHR 0xFF])"
proof -
  have "scalar_deserializeBinaryBulk readBinaryUInt64 []
      (concat (map writeBinaryUInt64 [0, 1, 18446744073709551615])) 2 0 =
      (None, [] @ take 2 [0, 1, 18446744073709551615],
       concat (map writeBinaryUInt64 (drop 2 [0, 1, 18446744073709551615])))"
    by (rule scalar_deserializeBinaryBulk_concat)
      (simp_all add: readBinaryUInt64_writeBinaryUInt64 writeBinaryUInt64_nonempty)
  then show ?thesis
    by (simp add: serializeBinaryBulk_def deserializeBinaryBulk_def UInt64_defs
        scalar_serializeBinaryBulk_to_end writeBinaryUInt64_examples)
qed

lemma UInt64_JSON_quoting:
  "serializeTextJSON DataTypeUInt64 [18446744073709551615] 0 [] True =
     (None, [18446744073709551615],
      [CHR 0x22] @ ''18446744073709551615'' @ [CHR 0x22])"
  "serializeTextJSON DataTypeUInt64 [18446744073709551615] 0 [] False =
     (None, [18446744073709551615], ''18446744073709551615'')"
  by (simp_all add: serializeTextJSON_def const_column_call_def UInt64_defs
      scalar_serializeValue_def writeJSONUInt64_def char_of_def bit_0)

subsection \<open>The text dialects of String on examples\<close>

lemmas String_defs = DataTypeString_def scalar_descriptor_def String_format_def

lemma String_text_examples:
  "serializeTextEscaped DataTypeString [[CHR ''a'', CHR 0x09, CHR ''b'']] 0 [] =
     (None, [[CHR ''a'', CHR 0x09, CHR ''b'']], [CHR ''a'', CHR 0x5C, CHR ''t'', CHR ''b''])"
  "deserializeTextEscaped DataTypeString []
       [CHR ''a'', CHR 0x5C, CHR ''t'', CHR ''b'', CHR 0x09, CHR ''c''] =
     (None, [[CHR ''a'', CHR 0x09, CHR ''b'']], [CHR 0x09, CHR ''c''])"
  "deserializeTextEscaped DataTypeString [''z''] [CHR ''a'', CHR 0x5C, CHR ''q''] =
     (Some (Exception ''Cannot parse escape sequence'' MALFORMED_INPUT), [''z''],
      [CHR ''a'', CHR 0x5C, CHR ''q''])"
  "serializeTextQuoted DataTypeString [[CHR ''i'', CHR 0x27, CHR ''s'']] 0 [] =
     (None, [[CHR ''i'', CHR 0x27, CHR ''s'']],
      [CHR 0x27, CHR ''i'', CHR 0x5C, CHR 0x27, CHR ''s'', CHR 0x27])"
  "deserializeTextQuoted DataTypeString []
       [CHR 0x27, CHR ''i'', CHR 0x5C, CHR 0x27, CHR ''s'', CHR 0x27, CHR '',''] =
     (None, [[CHR ''i'', CHR 0x27, CHR ''s'']], '','')"
  "deserializeTextCSV DataTypeString [] ''ab,cd'' (CHR '','') = (None, [''ab''], '',cd'')"
  "deserializeTextCSV DataTypeString []
       [CHR 0x22, CHR ''a'', CHR 0x22, CHR 0x22, CHR ''b'', CHR 0x22, CHR '',''] (CHR '','') =
     (None, [[CHR ''a'', CHR 0x22, CHR ''b'']], '','')"
  "serializeTextJSON DataTypeString [''ab''] 0 [] False =
     (None, [''ab''], [CHR 0x22, CHR ''a'', CHR ''b'', CHR 0x22])"
  "deserializeTextJSON DataTypeString [] [CHR 0x22, CHR ''a'', CHR ''b''] =
     (Some (Exception ''Cannot parse quoted string'' MALFORMED_INPUT), [],
      [CHR 0x22, CHR ''a'', CHR ''b''])"
  by (simp_all add: serializeTextEscaped_def deserializeTextEscaped_def serializeTextQuoted_def
      deserializeTextQuoted_def deserializeTextCSV_def serializeTextJSON_def
      deserializeTextJSON_def const_column_call_def String_defs scalar_serializeValue_def
      scalar_deserializeValue_def escapeChar_def unescapeChar_def readDelimitedString_def
      readCSVString_def)

end
